theory Spec2Isabelle
  imports Main "HOL-Library.Word" "HOL-Library.Monad_Syntax"
begin

unbundle bit_operations_syntax

section \<open>Bytes, bit values and the device header\<close>

text \<open>
  \<^verbatim>\<open>TimerHelpers.h\<close> works on Arduino's \<^verbatim>\<open>byte\<close> (an unsigned 8-bit integer): the
  table elements, the three parameters of \<^verbatim>\<open>setMode\<close> and the six timer control
  registers all have that type.
\<close>

type_synonym byte = "8 word"

text \<open>
  \<^verbatim>\<open>_BV (bit)\<close> is \<^verbatim>\<open>(1 << (bit))\<close>. Every use in the file ends in a byte (a table
  element, or an enumerator handed to a \<^verbatim>\<open>const byte\<close> parameter), so the shift is
  taken at that width: a bit number of 8 or more leaves no bit in the byte.
\<close>

definition BV :: "nat \<Rightarrow> byte" where
  "BV b = push_bit b 1"

text \<open>
  The bit numbers \<^verbatim>\<open>WGM00\<close>, \<^verbatim>\<open>COM0A0\<close>, ... are not declared in
  \<^verbatim>\<open>TimerHelpers.h\<close>: they come from the device header that \<^verbatim>\<open>Arduino.h\<close> pulls
  in. They are a parameter of the model, one field for each name the file uses.
\<close>

record io_header =
  WGM00 :: nat
  WGM01 :: nat
  WGM02 :: nat
  COM0A0 :: nat
  COM0A1 :: nat
  COM0B0 :: nat
  COM0B1 :: nat
  WGM10 :: nat
  WGM11 :: nat
  WGM12 :: nat
  WGM13 :: nat
  COM1A0 :: nat
  COM1A1 :: nat
  COM1B0 :: nat
  COM1B1 :: nat
  WGM20 :: nat
  WGM21 :: nat
  WGM22 :: nat
  COM2A0 :: nat
  COM2A1 :: nat
  COM2B0 :: nat
  COM2B1 :: nat

text \<open>
  The device the file is written for is the ATmega328P of the Arduino Uno: its
  comments give the 28-pin package's pins and Arduino ports (T0 on pin 6, D4; the
  compare outputs on pin 12, D6 and pin 11, D5 for timer 0, pin 15, D9 and pin 16, D10
  for timer 1, pin 17, D11 and pin 5, D3 for timer 2). \<open>atmega328p\<close> holds the bit
  numbers of that device's header: in TCCRnA the layout is COMnA1 COMnA0 COMnB1 COMnB0
  - - WGMn1 WGMn0 from bit 7 down, and in TCCRnB WGMn2 is bit 3 (and WGM13 bit 4 for
  timer 1), above the clock select bits 2..0.
\<close>

definition atmega328p :: io_header where
  "atmega328p = \<lparr>
     WGM00 = 0, WGM01 = 1, WGM02 = 3,
     COM0A0 = 6, COM0A1 = 7, COM0B0 = 4, COM0B1 = 5,
     WGM10 = 0, WGM11 = 1, WGM12 = 3, WGM13 = 4,
     COM1A0 = 6, COM1A1 = 7, COM1B0 = 4, COM1B1 = 5,
     WGM20 = 0, WGM21 = 1, WGM22 = 3,
     COM2A0 = 6, COM2A1 = 7, COM2B0 = 4, COM2B1 = 5 \<rparr>"

section \<open>The control registers\<close>

text \<open>
  The six registers the file writes, as a register image of plain 8-bit cells: a
  cell holds what was last stored in it. Each \<^verbatim>\<open>setMode\<close> takes the image and
  returns the updated one; \<^verbatim>\<open>R |= x\<close> reads the cell and stores the OR.
\<close>

record regs =
  TCCR0A :: byte
  TCCR0B :: byte
  TCCR1A :: byte
  TCCR1B :: byte
  TCCR2A :: byte
  TCCR2B :: byte

section \<open>Table access\<close>

text \<open>
  \<^verbatim>\<open>Modes [i] [j]\<close> reads a two-dimensional constant array. C++ leaves a read past
  either bound undefined; the model makes it \<open>None\<close>, so that a \<^verbatim>\<open>setMode\<close> that
  could read outside its table would show it in its result.
\<close>

definition elem :: "'a list list \<Rightarrow> nat \<Rightarrow> nat \<Rightarrow> 'a option" where
  "elem tbl i j =
     (if i < length tbl \<and> j < length (tbl ! i) then Some (tbl ! i ! j) else None)"

section \<open>Enumerations\<close>

text \<open>
  An enumeration is the list of its enumerators with their values, in declaration
  order. An enumerator without initialiser counts up from 0, which is all \<open>c_enum\<close>
  needs to cover here: the clock enumerations give no initialiser at all, the port
  enumerations give one to every enumerator. Values are kept at the type of the
  \<^verbatim>\<open>setMode\<close> parameter that receives them.
\<close>

type_synonym enum = "(string \<times> byte) list"

definition c_enum :: "string list \<Rightarrow> enum" where
  "c_enum names = zip names (map of_nat [0..<length names])"

section \<open>Timer 0\<close>

text \<open>
  \<^verbatim>\<open>namespace Timer0\<close>: the table of 8 modes, each row the fragment for TCCR0A and for TCCR0B,
  the two enumerations, and \<^verbatim>\<open>setMode\<close> with its statements in source order: the
  sanity check and early return, the two resets, then for each register the table
  read and the \<^verbatim>\<open>|=\<close>.
\<close>

definition Timer0_Modes :: "io_header \<Rightarrow> byte list list" where
  "Timer0_Modes H =
    [ [0,                           0],
      [BV (WGM00 H),                0],
      [BV (WGM01 H),                0],
      [BV (WGM00 H) OR BV (WGM01 H), 0],
      [0,                           BV (WGM02 H)],
      [BV (WGM00 H),                BV (WGM02 H)],
      [BV (WGM01 H),                BV (WGM02 H)],
      [BV (WGM00 H) OR BV (WGM01 H), BV (WGM02 H)] ]"

definition Timer0_clock :: enum where
  "Timer0_clock = c_enum
    [''NO_CLOCK'', ''PRESCALE_1'', ''PRESCALE_8'', ''PRESCALE_64'', ''PRESCALE_256'',
     ''PRESCALE_1024'', ''T0_FALLING'', ''T0_RISING'']"

definition Timer0_port :: "io_header \<Rightarrow> enum" where
  "Timer0_port H =
    [ (''NO_PORT'', 0),
      (''TOGGLE_A_ON_COMPARE'', BV (COM0A0 H)),
      (''CLEAR_A_ON_COMPARE'', BV (COM0A1 H)),
      (''SET_A_ON_COMPARE'', BV (COM0A0 H) OR BV (COM0A1 H)),
      (''TOGGLE_B_ON_COMPARE'', BV (COM0B0 H)),
      (''CLEAR_B_ON_COMPARE'', BV (COM0B1 H)),
      (''SET_B_ON_COMPARE'', BV (COM0B0 H) OR BV (COM0B1 H)) ]"

definition Timer0_setMode :: "io_header \<Rightarrow> byte \<Rightarrow> byte \<Rightarrow> byte \<Rightarrow> regs \<Rightarrow> regs option" where
  "Timer0_setMode H mode clock port s =
     (if mode < 0 \<or> mode > 7 then Some s
      else do {
        let s = s\<lparr>TCCR0A := 0\<rparr>;
        let s = s\<lparr>TCCR0B := 0\<rparr>;
        a \<leftarrow> elem (Timer0_Modes H) (unat mode) 0;
        let s = s\<lparr>TCCR0A := TCCR0A s OR (a OR port)\<rparr>;
        b \<leftarrow> elem (Timer0_Modes H) (unat mode) 1;
        Some (s\<lparr>TCCR0B := TCCR0B s OR (b OR clock)\<rparr>)
      })"

section \<open>Timer 1\<close>

text \<open>
  \<^verbatim>\<open>namespace Timer1\<close>: the table of 16 modes, each row the fragment for TCCR1A and for TCCR1B,
  the two enumerations, and \<^verbatim>\<open>setMode\<close> with its statements in source order: the
  sanity check and early return, the two resets, then for each register the table
  read and the \<^verbatim>\<open>|=\<close>.
\<close>

definition Timer1_Modes :: "io_header \<Rightarrow> byte list list" where
  "Timer1_Modes H =
    [ [0,                           0],
      [BV (WGM10 H),                0],
      [BV (WGM11 H),                0],
      [BV (WGM10 H) OR BV (WGM11 H), 0],
      [0,                           BV (WGM12 H)],
      [BV (WGM10 H),                BV (WGM12 H)],
      [BV (WGM11 H),                BV (WGM12 H)],
      [BV (WGM10 H) OR BV (WGM11 H), BV (WGM12 H)],
      [0,                           BV (WGM13 H)],
      [BV (WGM10 H),                BV (WGM13 H)],
      [BV (WGM11 H),                BV (WGM13 H)],
      [BV (WGM10 H) OR BV (WGM11 H), BV (WGM13 H)],
      [0,                           BV (WGM12 H) OR BV (WGM13 H)],
      [BV (WGM10 H),                BV (WGM12 H) OR BV (WGM13 H)],
      [BV (WGM11 H),                BV (WGM12 H) OR BV (WGM13 H)],
      [BV (WGM10 H) OR BV (WGM11 H), BV (WGM12 H) OR BV (WGM13 H)] ]"

definition Timer1_clock :: enum where
  "Timer1_clock = c_enum
    [''NO_CLOCK'', ''PRESCALE_1'', ''PRESCALE_8'', ''PRESCALE_64'', ''PRESCALE_256'',
     ''PRESCALE_1024'', ''T1_FALLING'', ''T1_RISING'']"

definition Timer1_port :: "io_header \<Rightarrow> enum" where
  "Timer1_port H =
    [ (''NO_PORT'', 0),
      (''TOGGLE_A_ON_COMPARE'', BV (COM1A0 H)),
      (''CLEAR_A_ON_COMPARE'', BV (COM1A1 H)),
      (''SET_A_ON_COMPARE'', BV (COM1A0 H) OR BV (COM1A1 H)),
      (''TOGGLE_B_ON_COMPARE'', BV (COM1B0 H)),
      (''CLEAR_B_ON_COMPARE'', BV (COM1B1 H)),
      (''SET_B_ON_COMPARE'', BV (COM1B0 H) OR BV (COM1B1 H)) ]"

definition Timer1_setMode :: "io_header \<Rightarrow> byte \<Rightarrow> byte \<Rightarrow> byte \<Rightarrow> regs \<Rightarrow> regs option" where
  "Timer1_setMode H mode clock port s =
     (if mode < 0 \<or> mode > 15 then Some s
      else do {
        let s = s\<lparr>TCCR1A := 0\<rparr>;
        let s = s\<lparr>TCCR1B := 0\<rparr>;
        a \<leftarrow> elem (Timer1_Modes H) (unat mode) 0;
        let s = s\<lparr>TCCR1A := TCCR1A s OR (a OR port)\<rparr>;
        b \<leftarrow> elem (Timer1_Modes H) (unat mode) 1;
        Some (s\<lparr>TCCR1B := TCCR1B s OR (b OR clock)\<rparr>)
      })"

section \<open>Timer 2\<close>

text \<open>
  \<^verbatim>\<open>namespace Timer2\<close>: the table of 8 modes, each row the fragment for TCCR2A and for TCCR2B,
  the two enumerations, and \<^verbatim>\<open>setMode\<close> with its statements in source order: the
  sanity check and early return, the two resets, then for each register the table
  read and the \<^verbatim>\<open>|=\<close>. Its clock enumeration names seven prescale ratios and no edge of an
  external clock.
\<close>

definition Timer2_Modes :: "io_header \<Rightarrow> byte list list" where
  "Timer2_Modes H =
    [ [0,                           0],
      [BV (WGM20 H),                0],
      [BV (WGM21 H),                0],
      [BV (WGM20 H) OR BV (WGM21 H), 0],
      [0,                           BV (WGM22 H)],
      [BV (WGM20 H),                BV (WGM22 H)],
      [BV (WGM21 H),                BV (WGM22 H)],
      [BV (WGM20 H) OR BV (WGM21 H), BV (WGM22 H)] ]"

definition Timer2_clock :: enum where
  "Timer2_clock = c_enum
    [''NO_CLOCK'', ''PRESCALE_1'', ''PRESCALE_8'', ''PRESCALE_32'', ''PRESCALE_64'',
     ''PRESCALE_128'', ''PRESCALE_256'', ''PRESCALE_1024'']"

definition Timer2_port :: "io_header \<Rightarrow> enum" where
  "Timer2_port H =
    [ (''NO_PORT'', 0),
      (''TOGGLE_A_ON_COMPARE'', BV (COM2A0 H)),
      (''CLEAR_A_ON_COMPARE'', BV (COM2A1 H)),
      (''SET_A_ON_COMPARE'', BV (COM2A0 H) OR BV (COM2A1 H)),
      (''TOGGLE_B_ON_COMPARE'', BV (COM2B0 H)),
      (''CLEAR_B_ON_COMPARE'', BV (COM2B1 H)),
      (''SET_B_ON_COMPARE'', BV (COM2B0 H) OR BV (COM2B1 H)) ]"

definition Timer2_setMode :: "io_header \<Rightarrow> byte \<Rightarrow> byte \<Rightarrow> byte \<Rightarrow> regs \<Rightarrow> regs option" where
  "Timer2_setMode H mode clock port s =
     (if mode < 0 \<or> mode > 7 then Some s
      else do {
        let s = s\<lparr>TCCR2A := 0\<rparr>;
        let s = s\<lparr>TCCR2B := 0\<rparr>;
        a \<leftarrow> elem (Timer2_Modes H) (unat mode) 0;
        let s = s\<lparr>TCCR2A := TCCR2A s OR (a OR port)\<rparr>;
        b \<leftarrow> elem (Timer2_Modes H) (unat mode) 1;
        Some (s\<lparr>TCCR2B := TCCR2B s OR (b OR clock)\<rparr>)
      })"

section \<open>Vocabulary of the properties\<close>

text \<open>A register image left behind by some earlier configuration: every bit set.\<close>

definition stale :: regs where
  "stale = \<lparr>TCCR0A = 255, TCCR0B = 255, TCCR1A = 255, TCCR1B = 255,
            TCCR2A = 255, TCCR2B = 255\<rparr>"

text \<open>The register image after reset: every bit clear.\<close>

definition blank :: regs where
  "blank = \<lparr>TCCR0A = 0, TCCR0B = 0, TCCR1A = 0, TCCR1B = 0, TCCR2A = 0, TCCR2B = 0\<rparr>"

text \<open>The number of bits set in a byte.\<close>

definition bits_used :: "byte \<Rightarrow> nat" where
  "bits_used w = length (filter (bit w) [0..<8])"

text \<open>
  The enumerators of a clock enumeration that name a prescale ratio
  (\<^verbatim>\<open>PRESCALE_...\<close>) and those that name an edge of the external clock pin
  (\<^verbatim>\<open>..._FALLING\<close>, \<^verbatim>\<open>..._RISING\<close>).
\<close>

definition prescales :: "enum \<Rightarrow> enum" where
  "prescales e = filter (\<lambda>(n, v). take 9 n = ''PRESCALE_'') e"

definition clock_edges :: "enum \<Rightarrow> enum" where
  "clock_edges e =
     filter (\<lambda>(n, v). drop (length n - 8) n = ''_FALLING'' \<or> drop (length n - 7) n = ''_RISING'') e"

text \<open>The values an enumeration names, and the OR of several chosen values.\<close>

definition values_of :: "enum \<Rightarrow> byte set" where
  "values_of e = snd ` set e"

definition or_all :: "byte list \<Rightarrow> byte" where
  "or_all ps = foldr (OR) ps 0"

text \<open>
  The register field an enumeration addresses: every bit that some enumerator of it
  sets.
\<close>

definition field :: "enum \<Rightarrow> byte" where
  "field e = or_all (map snd e)"

text \<open>
  Row \<open>m\<close> of a table that spells the four bits of the mode number \<open>m\<close> of timer 1 out
  over the two registers: bits 0 and 1 as WGM10 and WGM11 in the first fragment, bits 2
  and 3 as WGM12 and WGM13 in the second.
\<close>

definition Timer1_wgm :: "io_header \<Rightarrow> nat \<Rightarrow> byte list" where
  "Timer1_wgm H m =
    [ (if bit m 0 then BV (WGM10 H) else 0) OR (if bit m 1 then BV (WGM11 H) else 0),
      (if bit m 2 then BV (WGM12 H) else 0) OR (if bit m 3 then BV (WGM13 H) else 0) ]"

text \<open>
  A device header keeps the fields of the registers apart when, in each TCCRnB, the
  mode bits lie above the three clock select bits and, in each TCCRnA, no mode bit
  shares its position with a compare output bit. The lemmas on shared bits are proved
  for any such header and then used at \<open>atmega328p\<close>.
\<close>

definition separate_fields :: "io_header \<Rightarrow> bool" where
  "separate_fields H \<longleftrightarrow>
     3 \<le> WGM02 H \<and> 3 \<le> WGM12 H \<and> 3 \<le> WGM13 H \<and> 3 \<le> WGM22 H \<and>
     {WGM00 H, WGM01 H} \<inter> {COM0A0 H, COM0A1 H, COM0B0 H, COM0B1 H} = {} \<and>
     {WGM10 H, WGM11 H} \<inter> {COM1A0 H, COM1A1 H, COM1B0 H, COM1B1 H} = {} \<and>
     {WGM20 H, WGM21 H} \<inter> {COM2A0 H, COM2A1 H, COM2B0 H, COM2B1 H} = {}"

section \<open>The shape of the tables and the sanity check\<close>

lemma Timer0_Modes_shape:
  "length (Timer0_Modes H) = 8" "list_all (\<lambda>r. length r = 2) (Timer0_Modes H)"
  by (simp_all add: Timer0_Modes_def)

lemma Timer1_Modes_shape:
  "length (Timer1_Modes H) = 16" "list_all (\<lambda>r. length r = 2) (Timer1_Modes H)"
  by (simp_all add: Timer1_Modes_def)

lemma Timer2_Modes_shape:
  "length (Timer2_Modes H) = 8" "list_all (\<lambda>r. length r = 2) (Timer2_Modes H)"
  by (simp_all add: Timer2_Modes_def)

lemma elem_in_range:
  assumes "i < length tbl" and "list_all (\<lambda>r. length r = 2) tbl" and "j < 2"
  shows "elem tbl i j = Some (tbl ! i ! j)"
  using assms by (simp add: elem_def list_all_length)

text \<open>
  \<^verbatim>\<open>mode\<close> is unsigned, so \<^verbatim>\<open>mode < 0\<close> never holds and the check is an upper
  bound on the index.
\<close>

lemma guard7: "((mode :: byte) < 0 \<or> mode > 7) = (\<not> unat mode < 8)"
  by (auto simp add: word_less_nat_alt)

lemma guard15: "((mode :: byte) < 0 \<or> mode > 15) = (\<not> unat mode < 16)"
  by (auto simp add: word_less_nat_alt)

lemma above7: "((7 :: byte) < mode) = (\<not> unat mode < 8)"
  using guard7 [of mode] by simp

lemma above15: "((15 :: byte) < mode) = (\<not> unat mode < 16)"
  using guard15 [of mode] by simp

text \<open>What each \<^verbatim>\<open>setMode\<close> does on a mode that passes its sanity check.\<close>

lemma Timer0_setMode_valid:
  assumes "unat mode < 8"
  shows "Timer0_setMode H mode clock port s =
    Some (s\<lparr>TCCR0A := Timer0_Modes H ! unat mode ! 0 OR port,
            TCCR0B := Timer0_Modes H ! unat mode ! 1 OR clock\<rparr>)"
  using assms
  by (simp add: Timer0_setMode_def above7 elem_in_range Timer0_Modes_shape)

lemma Timer1_setMode_valid:
  assumes "unat mode < 16"
  shows "Timer1_setMode H mode clock port s =
    Some (s\<lparr>TCCR1A := Timer1_Modes H ! unat mode ! 0 OR port,
            TCCR1B := Timer1_Modes H ! unat mode ! 1 OR clock\<rparr>)"
  using assms
  by (simp add: Timer1_setMode_def above15 elem_in_range Timer1_Modes_shape)

lemma Timer2_setMode_valid:
  assumes "unat mode < 8"
  shows "Timer2_setMode H mode clock port s =
    Some (s\<lparr>TCCR2A := Timer2_Modes H ! unat mode ! 0 OR port,
            TCCR2B := Timer2_Modes H ! unat mode ! 1 OR clock\<rparr>)"
  using assms
  by (simp add: Timer2_setMode_def above7 elem_in_range Timer2_Modes_shape)

text \<open>What each does on a mode that fails it.\<close>

lemma Timer0_setMode_invalid:
  "\<not> unat mode < 8 \<Longrightarrow> Timer0_setMode H mode clock port s = Some s"
  by (simp add: Timer0_setMode_def above7)

lemma Timer1_setMode_invalid:
  "\<not> unat mode < 16 \<Longrightarrow> Timer1_setMode H mode clock port s = Some s"
  by (simp add: Timer1_setMode_def above15)

lemma Timer2_setMode_invalid:
  "\<not> unat mode < 8 \<Longrightarrow> Timer2_setMode H mode clock port s = Some s"
  by (simp add: Timer2_setMode_def above7)

section \<open>The enumerations, evaluated\<close>

lemma upt16: "[0..<16] = [0, 1, 2, 3, 4, 5, 6, 7, 8, 9, 10, 11, 12, 13, 14, 15]"
  by code_simp

lemma upt8: "[0..<8] = [0, 1, 2, 3, 4, 5, 6, 7]"
  by code_simp

lemma enum_simps:
  "Timer0_clock = [(''NO_CLOCK'', 0), (''PRESCALE_1'', 1), (''PRESCALE_8'', 2),
     (''PRESCALE_64'', 3), (''PRESCALE_256'', 4), (''PRESCALE_1024'', 5),
     (''T0_FALLING'', 6), (''T0_RISING'', 7)]"
  "Timer1_clock = [(''NO_CLOCK'', 0), (''PRESCALE_1'', 1), (''PRESCALE_8'', 2),
     (''PRESCALE_64'', 3), (''PRESCALE_256'', 4), (''PRESCALE_1024'', 5),
     (''T1_FALLING'', 6), (''T1_RISING'', 7)]"
  "Timer2_clock = [(''NO_CLOCK'', 0), (''PRESCALE_1'', 1), (''PRESCALE_8'', 2),
     (''PRESCALE_32'', 3), (''PRESCALE_64'', 4), (''PRESCALE_128'', 5),
     (''PRESCALE_256'', 6), (''PRESCALE_1024'', 7)]"
  by (simp_all add: Timer0_clock_def Timer1_clock_def Timer2_clock_def c_enum_def upt8)

lemma clock_values:
  "c \<in> values_of Timer0_clock \<Longrightarrow> c < 8"
  "c \<in> values_of Timer1_clock \<Longrightarrow> c < 8"
  "c \<in> values_of Timer2_clock \<Longrightarrow> c < 8"
  by (auto simp add: values_of_def Timer0_clock_def Timer1_clock_def Timer2_clock_def c_enum_def upt8)

section \<open>Counting the bits of a fragment\<close>

lemma bits_used_card: "bits_used w = card {i. bit w i}"
proof -
  have "{i. bit w i} \<inter> set [0..<8] = {i. bit w i}"
    using bit_imp_le_length [of w] by auto
  then show ?thesis
    by (simp add: bits_used_def distinct_length_filter)
qed

lemma bits_used_0: "bits_used 0 = 0"
  by (simp add: bits_used_card)

lemma bits_used_BV: "bits_used (BV b) \<le> 1"
proof -
  have "{i. bit (BV b) i} \<subseteq> {b}"
    by (auto simp add: BV_def bit_simps)
  then have "card {i. bit (BV b) i} \<le> card {b}"
    by (intro card_mono) simp_all
  then show ?thesis by (simp add: bits_used_card)
qed

lemma bits_used_OR: "bits_used (x OR y) \<le> bits_used x + bits_used y"
proof -
  have "{i. bit (x OR y) i} = {i. bit x i} \<union> {i. bit y i}"
    by (auto simp add: bit_or_iff)
  then show ?thesis
    by (simp add: bits_used_card card_Un_le)
qed

lemma bits_used_BV_OR_BV: "bits_used (BV a OR BV b) \<le> 2"
  using bits_used_OR [of "BV a" "BV b"] bits_used_BV [of a] bits_used_BV [of b] by linarith

lemma bits_used_BV2: "bits_used (BV b) \<le> 2"
  using bits_used_BV [of b] by linarith

section \<open>Fragments that share no bit\<close>

lemma BV_AND_BV: "a \<noteq> b \<Longrightarrow> BV a AND BV b = 0"
  by (rule bit_word_eqI) (auto simp add: BV_def bit_simps)

lemma BV_AND_low:
  fixes c :: byte
  assumes "3 \<le> b" and "c < 8"
  shows "BV b AND c = 0"
proof -
  have "c AND mask 3 = c"
    using assms(2) less_mask_eq [of c 3] by simp
  then have "BV b AND c = BV b AND (c AND mask 3)" by simp
  also have "\<dots> = 0"
    using assms(1) by (intro bit_word_eqI) (auto simp add: BV_def bit_simps)
  finally show ?thesis .
qed

lemma AND_or_all: "(\<And>p. p \<in> set ps \<Longrightarrow> x AND p = 0) \<Longrightarrow> x AND or_all ps = 0"
  by (induction ps) (simp_all add: or_all_def bit.conj_disj_distrib)

lemma Timer0_port_disjoint:
  assumes "separate_fields H" and "p \<in> values_of (Timer0_port H)"
  shows "list_all (\<lambda>r. r ! 0 AND p = 0) (Timer0_Modes H)"
  using assms
  by (auto simp add: separate_fields_def values_of_def Timer0_port_def Timer0_Modes_def
      BV_AND_BV bit.conj_disj_distrib bit.conj_disj_distrib2)

lemma Timer0_clock_disjoint:
  assumes "separate_fields H" and "c \<in> values_of Timer0_clock"
  shows "list_all (\<lambda>r. r ! 1 AND c = 0) (Timer0_Modes H)"
  using assms clock_values(1) [of c]
  by (simp add: separate_fields_def Timer0_Modes_def BV_AND_low)

lemma Timer1_port_disjoint:
  assumes "separate_fields H" and "p \<in> values_of (Timer1_port H)"
  shows "list_all (\<lambda>r. r ! 0 AND p = 0) (Timer1_Modes H)"
  using assms
  by (auto simp add: separate_fields_def values_of_def Timer1_port_def Timer1_Modes_def
      BV_AND_BV bit.conj_disj_distrib bit.conj_disj_distrib2)

lemma Timer1_clock_disjoint:
  assumes "separate_fields H" and "c \<in> values_of Timer1_clock"
  shows "list_all (\<lambda>r. r ! 1 AND c = 0) (Timer1_Modes H)"
  using assms clock_values(2) [of c]
  by (simp add: separate_fields_def Timer1_Modes_def BV_AND_low bit.conj_disj_distrib2)

lemma Timer2_port_disjoint:
  assumes "separate_fields H" and "p \<in> values_of (Timer2_port H)"
  shows "list_all (\<lambda>r. r ! 0 AND p = 0) (Timer2_Modes H)"
  using assms
  by (auto simp add: separate_fields_def values_of_def Timer2_port_def Timer2_Modes_def
      BV_AND_BV bit.conj_disj_distrib bit.conj_disj_distrib2)

lemma Timer2_clock_disjoint:
  assumes "separate_fields H" and "c \<in> values_of Timer2_clock"
  shows "list_all (\<lambda>r. r ! 1 AND c = 0) (Timer2_Modes H)"
  using assms clock_values(3) [of c]
  by (simp add: separate_fields_def Timer2_Modes_def BV_AND_low)

lemma row_fact:
  assumes "list_all P tbl" and "i < length tbl"
  shows "P (tbl ! i)"
  using assms by (simp add: list_all_length)

section \<open>Fields of a register\<close>

lemma bit_byte: "bit x n \<Longrightarrow> n < 8" for x :: byte
  using bit_imp_le_length [of x n] by simp

lemma within_iff: "(x AND NOT M = 0) = (\<forall>n. bit x n \<longrightarrow> bit M n)" for x M :: byte
  using bit_byte [of x] by (auto simp add: bit_eq_iff bit_simps)

lemma apart_iff: "(x AND M = 0) = (\<forall>n. \<not> (bit x n \<and> bit M n))" for x M :: byte
  using bit_byte [of x] by (auto simp add: bit_eq_iff bit_simps)

lemma bit_or_all: "bit (or_all xs) n = (\<exists>x \<in> set xs. bit x n)"
  by (induction xs) (auto simp add: or_all_def bit_simps)

lemma or_all_within_field:
  assumes "set ps \<subseteq> values_of e"
  shows "or_all ps AND NOT (field e) = 0"
  using assms by (auto simp add: within_iff field_def bit_or_all values_of_def)

lemma value_within_field:
  assumes "c \<in> values_of e"
  shows "c AND NOT (field e) = 0"
  using assms by (auto simp add: within_iff field_def bit_or_all values_of_def)

lemma apart_from_field:
  assumes "\<And>p. p \<in> values_of e \<Longrightarrow> f AND p = 0"
  shows "f AND field e = 0"
  using assms by (auto simp add: apart_iff field_def bit_or_all values_of_def)

lemma split_fields:
  fixes f :: byte
  assumes "f AND M = 0" and "p AND NOT M = 0"
  shows "(f OR p) AND M = p" and "(f OR p) AND NOT M = f"
  using assms bit_byte [of f] bit_byte [of p]
  by (auto simp add: within_iff apart_iff bit_eq_iff bit_simps)

lemma Timer0_fields:
  assumes H: "separate_fields H" and m: "unat m < 8" and c: "c \<in> values_of Timer0_clock"
    and ps: "set ps \<subseteq> values_of (Timer0_port H)"
  shows "Timer0_Modes H ! unat m ! 1 AND c = 0"
    and "Timer0_Modes H ! unat m ! 0 AND or_all ps = 0"
    and "map_option (\<lambda>t. (TCCR0A t AND field (Timer0_port H), TCCR0A t AND NOT (field (Timer0_port H)),
                          TCCR0B t AND field Timer0_clock, TCCR0B t AND NOT (field Timer0_clock)))
           (Timer0_setMode H m c (or_all ps) s) =
         Some (or_all ps, Timer0_Modes H ! unat m ! 0, c, Timer0_Modes H ! unat m ! 1)"
proof -
  have a: "Timer0_Modes H ! unat m ! 0 AND p = 0" if "p \<in> values_of (Timer0_port H)" for p
    using row_fact [OF Timer0_port_disjoint [OF H that], of "unat m"] m
    by (simp add: Timer0_Modes_shape)
  have b: "Timer0_Modes H ! unat m ! 1 AND k = 0" if "k \<in> values_of Timer0_clock" for k
    using row_fact [OF Timer0_clock_disjoint [OF H that], of "unat m"] m
    by (simp add: Timer0_Modes_shape)
  show "Timer0_Modes H ! unat m ! 1 AND c = 0"
    using c by (rule b)
  show "Timer0_Modes H ! unat m ! 0 AND or_all ps = 0"
    using ps by (intro AND_or_all a) auto
  have fa: "Timer0_Modes H ! unat m ! 0 AND field (Timer0_port H) = 0"
    by (rule apart_from_field) (rule a)
  have fb: "Timer0_Modes H ! unat m ! 1 AND field Timer0_clock = 0"
    by (rule apart_from_field) (rule b)
  show "map_option (\<lambda>t. (TCCR0A t AND field (Timer0_port H), TCCR0A t AND NOT (field (Timer0_port H)),
                          TCCR0B t AND field Timer0_clock, TCCR0B t AND NOT (field Timer0_clock)))
           (Timer0_setMode H m c (or_all ps) s) =
         Some (or_all ps, Timer0_Modes H ! unat m ! 0, c, Timer0_Modes H ! unat m ! 1)"
    using m split_fields [OF fa or_all_within_field [OF ps]]
      split_fields [OF fb value_within_field [OF c]]
    by (simp add: Timer0_setMode_valid)
qed

lemma Timer1_fields:
  assumes H: "separate_fields H" and m: "unat m < 16" and c: "c \<in> values_of Timer1_clock"
    and ps: "set ps \<subseteq> values_of (Timer1_port H)"
  shows "Timer1_Modes H ! unat m ! 1 AND c = 0"
    and "Timer1_Modes H ! unat m ! 0 AND or_all ps = 0"
    and "map_option (\<lambda>t. (TCCR1A t AND field (Timer1_port H), TCCR1A t AND NOT (field (Timer1_port H)),
                          TCCR1B t AND field Timer1_clock, TCCR1B t AND NOT (field Timer1_clock)))
           (Timer1_setMode H m c (or_all ps) s) =
         Some (or_all ps, Timer1_Modes H ! unat m ! 0, c, Timer1_Modes H ! unat m ! 1)"
proof -
  have a: "Timer1_Modes H ! unat m ! 0 AND p = 0" if "p \<in> values_of (Timer1_port H)" for p
    using row_fact [OF Timer1_port_disjoint [OF H that], of "unat m"] m
    by (simp add: Timer1_Modes_shape)
  have b: "Timer1_Modes H ! unat m ! 1 AND k = 0" if "k \<in> values_of Timer1_clock" for k
    using row_fact [OF Timer1_clock_disjoint [OF H that], of "unat m"] m
    by (simp add: Timer1_Modes_shape)
  show "Timer1_Modes H ! unat m ! 1 AND c = 0"
    using c by (rule b)
  show "Timer1_Modes H ! unat m ! 0 AND or_all ps = 0"
    using ps by (intro AND_or_all a) auto
  have fa: "Timer1_Modes H ! unat m ! 0 AND field (Timer1_port H) = 0"
    by (rule apart_from_field) (rule a)
  have fb: "Timer1_Modes H ! unat m ! 1 AND field Timer1_clock = 0"
    by (rule apart_from_field) (rule b)
  show "map_option (\<lambda>t. (TCCR1A t AND field (Timer1_port H), TCCR1A t AND NOT (field (Timer1_port H)),
                          TCCR1B t AND field Timer1_clock, TCCR1B t AND NOT (field Timer1_clock)))
           (Timer1_setMode H m c (or_all ps) s) =
         Some (or_all ps, Timer1_Modes H ! unat m ! 0, c, Timer1_Modes H ! unat m ! 1)"
    using m split_fields [OF fa or_all_within_field [OF ps]]
      split_fields [OF fb value_within_field [OF c]]
    by (simp add: Timer1_setMode_valid)
qed

lemma Timer2_fields:
  assumes H: "separate_fields H" and m: "unat m < 8" and c: "c \<in> values_of Timer2_clock"
    and ps: "set ps \<subseteq> values_of (Timer2_port H)"
  shows "Timer2_Modes H ! unat m ! 1 AND c = 0"
    and "Timer2_Modes H ! unat m ! 0 AND or_all ps = 0"
    and "map_option (\<lambda>t. (TCCR2A t AND field (Timer2_port H), TCCR2A t AND NOT (field (Timer2_port H)),
                          TCCR2B t AND field Timer2_clock, TCCR2B t AND NOT (field Timer2_clock)))
           (Timer2_setMode H m c (or_all ps) s) =
         Some (or_all ps, Timer2_Modes H ! unat m ! 0, c, Timer2_Modes H ! unat m ! 1)"
proof -
  have a: "Timer2_Modes H ! unat m ! 0 AND p = 0" if "p \<in> values_of (Timer2_port H)" for p
    using row_fact [OF Timer2_port_disjoint [OF H that], of "unat m"] m
    by (simp add: Timer2_Modes_shape)
  have b: "Timer2_Modes H ! unat m ! 1 AND k = 0" if "k \<in> values_of Timer2_clock" for k
    using row_fact [OF Timer2_clock_disjoint [OF H that], of "unat m"] m
    by (simp add: Timer2_Modes_shape)
  show "Timer2_Modes H ! unat m ! 1 AND c = 0"
    using c by (rule b)
  show "Timer2_Modes H ! unat m ! 0 AND or_all ps = 0"
    using ps by (intro AND_or_all a) auto
  have fa: "Timer2_Modes H ! unat m ! 0 AND field (Timer2_port H) = 0"
    by (rule apart_from_field) (rule a)
  have fb: "Timer2_Modes H ! unat m ! 1 AND field Timer2_clock = 0"
    by (rule apart_from_field) (rule b)
  show "map_option (\<lambda>t. (TCCR2A t AND field (Timer2_port H), TCCR2A t AND NOT (field (Timer2_port H)),
                          TCCR2B t AND field Timer2_clock, TCCR2B t AND NOT (field Timer2_clock)))
           (Timer2_setMode H m c (or_all ps) s) =
         Some (or_all ps, Timer2_Modes H ! unat m ! 0, c, Timer2_Modes H ! unat m ! 1)"
    using m split_fields [OF fa or_all_within_field [OF ps]]
      split_fields [OF fb value_within_field [OF c]]
    by (simp add: Timer2_setMode_valid)
qed

text \<open>The ATmega328P keeps the fields apart; its port fields and clock fields.\<close>

lemma atmega328p_separate_fields: "separate_fields atmega328p"
  by (simp add: separate_fields_def atmega328p_def)

lemma atmega328p_fields:
  "field Timer0_clock = 7" "field Timer1_clock = 7" "field Timer2_clock = 7"
  "field (Timer0_port atmega328p) = 240" "field (Timer1_port atmega328p) = 240"
  "field (Timer2_port atmega328p) = 240"
  by (simp_all add: field_def or_all_def enum_simps Timer0_port_def Timer1_port_def
      Timer2_port_def atmega328p_def BV_def)

section \<open>What \<^verbatim>\<open>setMode\<close> writes\<close>

text \<open>
  C1. For each timer (timer 0 and timer 2 with 8 modes, timer 1 with 16), every mode
  index below the table length and every byte \<open>clock\<close> and \<open>port\<close>,
  \<^verbatim>\<open>setMode (m, clock, port)\<close> returns with control register A equal to
  \<^verbatim>\<open>Modes [m] [0] | port\<close> and control register B equal to \<^verbatim>\<open>Modes [m] [1] | clock\<close>,
  no other bit set in either, and the other timers' registers as they were.
\<close>

theorem setMode_writes_table_entry:
  "(unat m < 8 \<longrightarrow> Timer0_setMode H m clock port s =
      Some (s\<lparr>TCCR0A := Timer0_Modes H ! unat m ! 0 OR port,
              TCCR0B := Timer0_Modes H ! unat m ! 1 OR clock\<rparr>)) \<and>
   (unat m < 16 \<longrightarrow> Timer1_setMode H m clock port s =
      Some (s\<lparr>TCCR1A := Timer1_Modes H ! unat m ! 0 OR port,
              TCCR1B := Timer1_Modes H ! unat m ! 1 OR clock\<rparr>)) \<and>
   (unat m < 8 \<longrightarrow> Timer2_setMode H m clock port s =
      Some (s\<lparr>TCCR2A := Timer2_Modes H ! unat m ! 0 OR port,
              TCCR2B := Timer2_Modes H ! unat m ! 1 OR clock\<rparr>))"
  by (simp add: Timer0_setMode_valid Timer1_setMode_valid Timer2_setMode_valid)

text \<open>
  On the ATmega328P, from a stale register image: timer 0 in mode 2 with
  \<^verbatim>\<open>PRESCALE_64\<close> and \<^verbatim>\<open>CLEAR_A_ON_COMPARE\<close>, timer 1 in mode 4 with
  \<^verbatim>\<open>PRESCALE_1\<close> and \<^verbatim>\<open>NO_PORT\<close>, timer 2 in mode 7 with \<^verbatim>\<open>PRESCALE_1024\<close> and
  \<^verbatim>\<open>SET_B_ON_COMPARE\<close>.
\<close>

theorem setMode_writes_table_entry_witness:
  "Timer0_setMode atmega328p 2 3 128 stale = Some (stale\<lparr>TCCR0A := 130, TCCR0B := 3\<rparr>) \<and>
   Timer1_setMode atmega328p 4 1 0 stale = Some (stale\<lparr>TCCR1A := 0, TCCR1B := 9\<rparr>) \<and>
   Timer2_setMode atmega328p 7 7 48 stale = Some (stale\<lparr>TCCR2A := 51, TCCR2B := 15\<rparr>)"
  using setMode_writes_table_entry [of 2 atmega328p 3 128 stale]
    setMode_writes_table_entry [of 4 atmega328p 1 0 stale]
    setMode_writes_table_entry [of 7 atmega328p 7 48 stale]
  by (simp add: Timer0_Modes_def Timer1_Modes_def Timer2_Modes_def atmega328p_def BV_def)

text \<open>
  C2. For each timer and every mode index at or above the table length (8, 16, 8),
  \<^verbatim>\<open>setMode\<close> returns normally with the register image exactly as it was: nothing is
  zeroed or defaulted, and nothing tells the caller.
\<close>

theorem setMode_out_of_range_unchanged:
  "(\<not> unat m < 8 \<longrightarrow> Timer0_setMode H m clock port s = Some s) \<and>
   (\<not> unat m < 16 \<longrightarrow> Timer1_setMode H m clock port s = Some s) \<and>
   (\<not> unat m < 8 \<longrightarrow> Timer2_setMode H m clock port s = Some s)"
  by (simp add: Timer0_setMode_invalid Timer1_setMode_invalid Timer2_setMode_invalid)

theorem setMode_out_of_range_unchanged_witness:
  "Timer0_setMode atmega328p 8 3 128 stale = Some stale \<and>
   Timer1_setMode atmega328p 16 3 128 stale = Some stale \<and>
   Timer2_setMode atmega328p 255 3 128 stale = Some stale"
  using setMode_out_of_range_unchanged [of 8 atmega328p 3 128 stale]
    setMode_out_of_range_unchanged [of 16 atmega328p 3 128 stale]
    setMode_out_of_range_unchanged [of 255 atmega328p 3 128 stale]
  by simp

text \<open>
  C3. For each timer, every mode index below the table length and every \<open>clock\<close> and
  \<open>port\<close>, \<^verbatim>\<open>setMode\<close> returns, and the two control registers of the timer end
  the same from any two register images it starts in: nothing of an earlier
  configuration is left in them.
\<close>

theorem setMode_forgets_prior_state:
  "(unat m < 8 \<longrightarrow>
      Timer0_setMode H m clock port s \<noteq> None \<and>
      map_option (\<lambda>t. (TCCR0A t, TCCR0B t)) (Timer0_setMode H m clock port s) =
      map_option (\<lambda>t. (TCCR0A t, TCCR0B t)) (Timer0_setMode H m clock port s')) \<and>
   (unat m < 16 \<longrightarrow>
      Timer1_setMode H m clock port s \<noteq> None \<and>
      map_option (\<lambda>t. (TCCR1A t, TCCR1B t)) (Timer1_setMode H m clock port s) =
      map_option (\<lambda>t. (TCCR1A t, TCCR1B t)) (Timer1_setMode H m clock port s')) \<and>
   (unat m < 8 \<longrightarrow>
      Timer2_setMode H m clock port s \<noteq> None \<and>
      map_option (\<lambda>t. (TCCR2A t, TCCR2B t)) (Timer2_setMode H m clock port s) =
      map_option (\<lambda>t. (TCCR2A t, TCCR2B t)) (Timer2_setMode H m clock port s'))"
  by (simp add: Timer0_setMode_valid Timer1_setMode_valid Timer2_setMode_valid)

text \<open>From the stale image and from the blank one.\<close>

theorem setMode_forgets_prior_state_witness:
  "map_option (\<lambda>t. (TCCR0A t, TCCR0B t)) (Timer0_setMode atmega328p 5 2 64 stale) = Some (65, 10) \<and>
   map_option (\<lambda>t. (TCCR0A t, TCCR0B t)) (Timer0_setMode atmega328p 5 2 64 blank) = Some (65, 10) \<and>
   map_option (\<lambda>t. (TCCR1A t, TCCR1B t)) (Timer1_setMode atmega328p 14 1 128 stale) = Some (130, 25) \<and>
   map_option (\<lambda>t. (TCCR1A t, TCCR1B t)) (Timer1_setMode atmega328p 14 1 128 blank) = Some (130, 25) \<and>
   map_option (\<lambda>t. (TCCR2A t, TCCR2B t)) (Timer2_setMode atmega328p 2 4 16 stale) = Some (18, 4) \<and>
   map_option (\<lambda>t. (TCCR2A t, TCCR2B t)) (Timer2_setMode atmega328p 2 4 16 blank) = Some (18, 4)"
  using setMode_forgets_prior_state [of 5 atmega328p 2 64 stale blank]
    setMode_forgets_prior_state [of 14 atmega328p 1 128 stale blank]
    setMode_forgets_prior_state [of 2 atmega328p 4 16 stale blank]
  by (simp add: Timer0_setMode_def Timer1_setMode_def Timer2_setMode_def elem_def
      Timer0_Modes_def Timer1_Modes_def Timer2_Modes_def atmega328p_def BV_def stale_def blank_def)

text \<open>
  C4. For each timer and every argument triple, in range or not, calling
  \<^verbatim>\<open>setMode\<close> a second time with the same arguments changes nothing: two calls in
  succession leave the registers as one call does.
\<close>

theorem setMode_idempotent:
  "(Timer0_setMode H m clock port s \<bind> Timer0_setMode H m clock port) =
     Timer0_setMode H m clock port s \<and>
   (Timer1_setMode H m clock port s \<bind> Timer1_setMode H m clock port) =
     Timer1_setMode H m clock port s \<and>
   (Timer2_setMode H m clock port s \<bind> Timer2_setMode H m clock port) =
     Timer2_setMode H m clock port s"
proof (intro conjI)
  show "(Timer0_setMode H m clock port s \<bind> Timer0_setMode H m clock port) =
     Timer0_setMode H m clock port s"
    by (cases "unat m < 8") (simp_all add: Timer0_setMode_valid Timer0_setMode_invalid)
  show "(Timer1_setMode H m clock port s \<bind> Timer1_setMode H m clock port) =
     Timer1_setMode H m clock port s"
    by (cases "unat m < 16") (simp_all add: Timer1_setMode_valid Timer1_setMode_invalid)
  show "(Timer2_setMode H m clock port s \<bind> Timer2_setMode H m clock port) =
     Timer2_setMode H m clock port s"
    by (cases "unat m < 8") (simp_all add: Timer2_setMode_valid Timer2_setMode_invalid)
qed

text \<open>
  C5. For each timer and every mode index below the table length, \<^verbatim>\<open>setMode\<close> checks
  neither \<open>clock\<close> nor \<open>port\<close>: whatever bytes they are, the call returns, register A
  is the table fragment OR \<open>port\<close> and register B the table fragment OR \<open>clock\<close>,
  and every bit of \<open>port\<close> and of \<open>clock\<close> is found in its register.
\<close>

theorem setMode_passes_clock_and_port:
  "(unat m < 8 \<longrightarrow>
      map_option TCCR0A (Timer0_setMode H m clock port s) = Some (Timer0_Modes H ! unat m ! 0 OR port) \<and>
      map_option TCCR0B (Timer0_setMode H m clock port s) = Some (Timer0_Modes H ! unat m ! 1 OR clock) \<and>
      map_option (\<lambda>t. TCCR0A t AND port) (Timer0_setMode H m clock port s) = Some port \<and>
      map_option (\<lambda>t. TCCR0B t AND clock) (Timer0_setMode H m clock port s) = Some clock) \<and>
   (unat m < 16 \<longrightarrow>
      map_option TCCR1A (Timer1_setMode H m clock port s) = Some (Timer1_Modes H ! unat m ! 0 OR port) \<and>
      map_option TCCR1B (Timer1_setMode H m clock port s) = Some (Timer1_Modes H ! unat m ! 1 OR clock) \<and>
      map_option (\<lambda>t. TCCR1A t AND port) (Timer1_setMode H m clock port s) = Some port \<and>
      map_option (\<lambda>t. TCCR1B t AND clock) (Timer1_setMode H m clock port s) = Some clock) \<and>
   (unat m < 8 \<longrightarrow>
      map_option TCCR2A (Timer2_setMode H m clock port s) = Some (Timer2_Modes H ! unat m ! 0 OR port) \<and>
      map_option TCCR2B (Timer2_setMode H m clock port s) = Some (Timer2_Modes H ! unat m ! 1 OR clock) \<and>
      map_option (\<lambda>t. TCCR2A t AND port) (Timer2_setMode H m clock port s) = Some port \<and>
      map_option (\<lambda>t. TCCR2B t AND clock) (Timer2_setMode H m clock port s) = Some clock)"
  by (simp add: Timer0_setMode_valid Timer1_setMode_valid Timer2_setMode_valid
      bit.conj_disj_distrib2)

text \<open>
  On the ATmega328P: timer 0 with the clock byte 255 and the port byte
  \<^verbatim>\<open>TOGGLE_A_ON_COMPARE | SET_B_ON_COMPARE\<close> (64 OR 48), timer 1 with the clock byte
  200 and the same port byte, timer 2 with the clock byte 96 and the port byte 15.
\<close>

theorem setMode_passes_clock_and_port_witness:
  "map_option TCCR0A (Timer0_setMode atmega328p 3 255 112 blank) = Some 115 \<and>
   map_option TCCR0B (Timer0_setMode atmega328p 3 255 112 blank) = Some 255 \<and>
   map_option (\<lambda>t. TCCR0A t AND 112) (Timer0_setMode atmega328p 3 255 112 blank) = Some 112 \<and>
   map_option TCCR1A (Timer1_setMode atmega328p 9 200 112 blank) = Some 113 \<and>
   map_option TCCR1B (Timer1_setMode atmega328p 9 200 112 blank) = Some 216 \<and>
   map_option (\<lambda>t. TCCR1B t AND 200) (Timer1_setMode atmega328p 9 200 112 blank) = Some 200 \<and>
   map_option TCCR2A (Timer2_setMode atmega328p 0 96 15 blank) = Some 15 \<and>
   map_option TCCR2B (Timer2_setMode atmega328p 0 96 15 blank) = Some 96"
  using setMode_passes_clock_and_port [of 3 atmega328p 255 112 blank]
    setMode_passes_clock_and_port [of 9 atmega328p 200 112 blank]
    setMode_passes_clock_and_port [of 0 atmega328p 96 15 blank]
  by (simp add: Timer0_Modes_def Timer1_Modes_def Timer2_Modes_def atmega328p_def BV_def)

text \<open>
  C8. In each \<^verbatim>\<open>setMode\<close> the table is read only behind the sanity check, so no read
  leaves the table: with a table access that answers \<open>None\<close> outside the bounds, no
  call of \<^verbatim>\<open>setMode\<close> ever answers \<open>None\<close>. The mode being an unsigned byte, the check
  \<^verbatim>\<open>mode < 0 || mode > 7\<close> (or 15) fails exactly when the mode is below 8 (or 16).
\<close>

theorem setMode_reads_inside_table:
  "Timer0_setMode H m clock port s \<noteq> None \<and>
   Timer1_setMode H m clock port s \<noteq> None \<and>
   Timer2_setMode H m clock port s \<noteq> None \<and>
   ((m < 0 \<or> m > 7) = (\<not> unat m < 8)) \<and>
   ((m < 0 \<or> m > 15) = (\<not> unat m < 16))"
proof (intro conjI)
  show "Timer0_setMode H m clock port s \<noteq> None"
    by (cases "unat m < 8") (simp_all add: Timer0_setMode_valid Timer0_setMode_invalid)
  show "Timer1_setMode H m clock port s \<noteq> None"
    by (cases "unat m < 16") (simp_all add: Timer1_setMode_valid Timer1_setMode_invalid)
  show "Timer2_setMode H m clock port s \<noteq> None"
    by (cases "unat m < 8") (simp_all add: Timer2_setMode_valid Timer2_setMode_invalid)
  show "(m < 0 \<or> m > 7) = (\<not> unat m < 8)" by (rule guard7)
  show "(m < 0 \<or> m > 15) = (\<not> unat m < 16)" by (rule guard15)
qed

text \<open>
  C10. For each timer, row 0 of the table is the pair (0, 0), \<^verbatim>\<open>NO_CLOCK\<close> and
  \<^verbatim>\<open>NO_PORT\<close> are both 0, and \<^verbatim>\<open>setMode (0, NO_CLOCK, NO_PORT)\<close> leaves both control
  registers of the timer equal to 0.
\<close>

theorem setMode_zero_clears:
  "Timer0_Modes H ! 0 = [0, 0] \<and> Timer1_Modes H ! 0 = [0, 0] \<and> Timer2_Modes H ! 0 = [0, 0] \<and>
   do { c \<leftarrow> map_of Timer0_clock ''NO_CLOCK''; p \<leftarrow> map_of (Timer0_port H) ''NO_PORT'';
        Timer0_setMode H 0 c p s } = Some (s\<lparr>TCCR0A := 0, TCCR0B := 0\<rparr>) \<and>
   do { c \<leftarrow> map_of Timer1_clock ''NO_CLOCK''; p \<leftarrow> map_of (Timer1_port H) ''NO_PORT'';
        Timer1_setMode H 0 c p s } = Some (s\<lparr>TCCR1A := 0, TCCR1B := 0\<rparr>) \<and>
   do { c \<leftarrow> map_of Timer2_clock ''NO_CLOCK''; p \<leftarrow> map_of (Timer2_port H) ''NO_PORT'';
        Timer2_setMode H 0 c p s } = Some (s\<lparr>TCCR2A := 0, TCCR2B := 0\<rparr>)"
  by (simp add: Timer0_setMode_valid Timer1_setMode_valid Timer2_setMode_valid
      Timer0_Modes_def Timer1_Modes_def Timer2_Modes_def
      Timer0_clock_def Timer1_clock_def Timer2_clock_def c_enum_def
      Timer0_port_def Timer1_port_def Timer2_port_def)

section \<open>The tables and the enumerations\<close>

text \<open>
  C6, as the table is written. The mode table of timer 1 has 16 rows of two fragments,
  row \<open>m\<close> for mode number \<open>m\<close> (the reserved row 13 in its place), and splits the four
  mode bits two and two: fragment A is WGM10 and WGM11 as bits 0 and 1 of \<open>m\<close> are set,
  fragment B is WGM12 and WGM13 as bits 2 and 3 of \<open>m\<close> are set. So each fragment uses
  at most two mode bits.
\<close>

theorem Timer1_Modes_two_and_two:
  "length (Timer1_Modes H) = 16 \<and>
   Timer1_Modes H = map (Timer1_wgm H) [0..<16] \<and>
   list_all (\<lambda>r. length r = 2 \<and> bits_used (r ! 0) \<le> 2 \<and> bits_used (r ! 1) \<le> 2) (Timer1_Modes H)"
proof (intro conjI)
  show "length (Timer1_Modes H) = 16" by (simp add: Timer1_Modes_def)
  show "Timer1_Modes H = map (Timer1_wgm H) [0..<16]"
    by (simp add: Timer1_Modes_def Timer1_wgm_def upt16 bit_simps)
  show "list_all (\<lambda>r. length r = 2 \<and> bits_used (r ! 0) \<le> 2 \<and> bits_used (r ! 1) \<le> 2) (Timer1_Modes H)"
    by (simp add: Timer1_Modes_def bits_used_0 bits_used_BV2 bits_used_BV_OR_BV)
qed

text \<open>
  Fragment B does not stop at one mode bit: on the ATmega328P row 12
  (\<^verbatim>\<open>{ 0, _BV (WGM12) | _BV (WGM13) }\<close>) has two bits set in it.
\<close>

theorem Timer1_Modes_fragment_B_two_bits:
  "Timer1_Modes atmega328p ! 12 = [0, 24] \<and>
   bits_used (Timer1_Modes atmega328p ! 12 ! 1) = 2 \<and>
   \<not> bits_used (Timer1_Modes atmega328p ! 12 ! 1) \<le> 1"
  by (simp add: Timer1_Modes_def atmega328p_def BV_def bits_used_def upt8)

text \<open>
  C7, as the enumerations are written. In each timer's clock enumeration
  \<^verbatim>\<open>NO_CLOCK\<close> is 0 and the prescale enumerators ascend (1 to 5 for timers 0 and 1,
  1 to 7 for timer 2). Two distinct external clock edge enumerators, falling 6 and
  rising 7, are given for timer 0 and for timer 1 (the 16-bit timer); timer 2 has none.
\<close>

theorem clock_enumerations:
  "map_of Timer0_clock ''NO_CLOCK'' = Some 0 \<and>
   map_of Timer1_clock ''NO_CLOCK'' = Some 0 \<and>
   map_of Timer2_clock ''NO_CLOCK'' = Some 0 \<and>
   prescales Timer0_clock = [(''PRESCALE_1'', 1), (''PRESCALE_8'', 2), (''PRESCALE_64'', 3),
     (''PRESCALE_256'', 4), (''PRESCALE_1024'', 5)] \<and>
   prescales Timer1_clock = [(''PRESCALE_1'', 1), (''PRESCALE_8'', 2), (''PRESCALE_64'', 3),
     (''PRESCALE_256'', 4), (''PRESCALE_1024'', 5)] \<and>
   prescales Timer2_clock = [(''PRESCALE_1'', 1), (''PRESCALE_8'', 2), (''PRESCALE_32'', 3),
     (''PRESCALE_64'', 4), (''PRESCALE_128'', 5), (''PRESCALE_256'', 6), (''PRESCALE_1024'', 7)] \<and>
   sorted_wrt (<) (map snd (prescales Timer0_clock)) \<and>
   sorted_wrt (<) (map snd (prescales Timer1_clock)) \<and>
   sorted_wrt (<) (map snd (prescales Timer2_clock)) \<and>
   clock_edges Timer0_clock = [(''T0_FALLING'', 6), (''T0_RISING'', 7)] \<and>
   clock_edges Timer1_clock = [(''T1_FALLING'', 6), (''T1_RISING'', 7)] \<and>
   clock_edges Timer2_clock = []"
  by (simp add: enum_simps prescales_def clock_edges_def)

text \<open>
  The 16-bit timer does name the two edges, and the second 8-bit timer does not.
\<close>

theorem clock_edges_for_Timer1_not_Timer2:
  "map_of Timer1_clock ''T1_FALLING'' = Some 6 \<and> map_of Timer1_clock ''T1_RISING'' = Some 7 \<and>
   clock_edges Timer1_clock \<noteq> [] \<and> clock_edges Timer2_clock = []"
  by (simp add: enum_simps clock_edges_def)

text \<open>
  C9. With the bit numbers of the ATmega328P: for each timer, every mode index below
  the table length, every enumerator \<open>c\<close> of the timer's clock enumeration and every OR
  of enumerators of its port enumeration, the B fragment of the mode shares no bit with
  \<open>c\<close> and the A fragment shares no bit with the port value. So the registers
  \<^verbatim>\<open>setMode\<close> writes come apart in one way only: of register A, the bits inside the
  port field are exactly the port value and the bits outside it are exactly the A
  fragment; of register B, the bits inside the clock field are exactly \<open>c\<close> and the
  bits outside it are exactly the B fragment.
\<close>

theorem mode_bits_apart_from_clock_and_port:
  "(unat m < 8 \<longrightarrow> c \<in> values_of Timer0_clock \<longrightarrow>
    set ps \<subseteq> values_of (Timer0_port atmega328p) \<longrightarrow>
      Timer0_Modes atmega328p ! unat m ! 1 AND c = 0 \<and>
      Timer0_Modes atmega328p ! unat m ! 0 AND or_all ps = 0 \<and>
      map_option (\<lambda>t. (TCCR0A t AND field (Timer0_port atmega328p),
                        TCCR0A t AND NOT (field (Timer0_port atmega328p)),
                        TCCR0B t AND field Timer0_clock,
                        TCCR0B t AND NOT (field Timer0_clock)))
        (Timer0_setMode atmega328p m c (or_all ps) s) =
      Some (or_all ps, Timer0_Modes atmega328p ! unat m ! 0,
            c, Timer0_Modes atmega328p ! unat m ! 1)) \<and>
   (unat m < 16 \<longrightarrow> c \<in> values_of Timer1_clock \<longrightarrow>
    set ps \<subseteq> values_of (Timer1_port atmega328p) \<longrightarrow>
      Timer1_Modes atmega328p ! unat m ! 1 AND c = 0 \<and>
      Timer1_Modes atmega328p ! unat m ! 0 AND or_all ps = 0 \<and>
      map_option (\<lambda>t. (TCCR1A t AND field (Timer1_port atmega328p),
                        TCCR1A t AND NOT (field (Timer1_port atmega328p)),
                        TCCR1B t AND field Timer1_clock,
                        TCCR1B t AND NOT (field Timer1_clock)))
        (Timer1_setMode atmega328p m c (or_all ps) s) =
      Some (or_all ps, Timer1_Modes atmega328p ! unat m ! 0,
            c, Timer1_Modes atmega328p ! unat m ! 1)) \<and>
   (unat m < 8 \<longrightarrow> c \<in> values_of Timer2_clock \<longrightarrow>
    set ps \<subseteq> values_of (Timer2_port atmega328p) \<longrightarrow>
      Timer2_Modes atmega328p ! unat m ! 1 AND c = 0 \<and>
      Timer2_Modes atmega328p ! unat m ! 0 AND or_all ps = 0 \<and>
      map_option (\<lambda>t. (TCCR2A t AND field (Timer2_port atmega328p),
                        TCCR2A t AND NOT (field (Timer2_port atmega328p)),
                        TCCR2B t AND field Timer2_clock,
                        TCCR2B t AND NOT (field Timer2_clock)))
        (Timer2_setMode atmega328p m c (or_all ps) s) =
      Some (or_all ps, Timer2_Modes atmega328p ! unat m ! 0,
            c, Timer2_Modes atmega328p ! unat m ! 1))"
proof (intro conjI impI)
  assume "unat m < 8" and "c \<in> values_of Timer0_clock"
    and "set ps \<subseteq> values_of (Timer0_port atmega328p)"
  note f = Timer0_fields [OF atmega328p_separate_fields this]
  show "Timer0_Modes atmega328p ! unat m ! 1 AND c = 0"
    by (rule f(1))
  show "Timer0_Modes atmega328p ! unat m ! 0 AND or_all ps = 0"
    by (rule f(2))
  show "map_option (\<lambda>t. (TCCR0A t AND field (Timer0_port atmega328p),
                        TCCR0A t AND NOT (field (Timer0_port atmega328p)),
                        TCCR0B t AND field Timer0_clock,
                        TCCR0B t AND NOT (field Timer0_clock)))
        (Timer0_setMode atmega328p m c (or_all ps) s) =
      Some (or_all ps, Timer0_Modes atmega328p ! unat m ! 0,
            c, Timer0_Modes atmega328p ! unat m ! 1)"
    by (rule f(3))
next
  assume "unat m < 16" and "c \<in> values_of Timer1_clock"
    and "set ps \<subseteq> values_of (Timer1_port atmega328p)"
  note f = Timer1_fields [OF atmega328p_separate_fields this]
  show "Timer1_Modes atmega328p ! unat m ! 1 AND c = 0"
    by (rule f(1))
  show "Timer1_Modes atmega328p ! unat m ! 0 AND or_all ps = 0"
    by (rule f(2))
  show "map_option (\<lambda>t. (TCCR1A t AND field (Timer1_port atmega328p),
                        TCCR1A t AND NOT (field (Timer1_port atmega328p)),
                        TCCR1B t AND field Timer1_clock,
                        TCCR1B t AND NOT (field Timer1_clock)))
        (Timer1_setMode atmega328p m c (or_all ps) s) =
      Some (or_all ps, Timer1_Modes atmega328p ! unat m ! 0,
            c, Timer1_Modes atmega328p ! unat m ! 1)"
    by (rule f(3))
next
  assume "unat m < 8" and "c \<in> values_of Timer2_clock"
    and "set ps \<subseteq> values_of (Timer2_port atmega328p)"
  note f = Timer2_fields [OF atmega328p_separate_fields this]
  show "Timer2_Modes atmega328p ! unat m ! 1 AND c = 0"
    by (rule f(1))
  show "Timer2_Modes atmega328p ! unat m ! 0 AND or_all ps = 0"
    by (rule f(2))
  show "map_option (\<lambda>t. (TCCR2A t AND field (Timer2_port atmega328p),
                        TCCR2A t AND NOT (field (Timer2_port atmega328p)),
                        TCCR2B t AND field Timer2_clock,
                        TCCR2B t AND NOT (field Timer2_clock)))
        (Timer2_setMode atmega328p m c (or_all ps) s) =
      Some (or_all ps, Timer2_Modes atmega328p ! unat m ! 0,
            c, Timer2_Modes atmega328p ! unat m ! 1)"
    by (rule f(3))
qed

text \<open>
  In mode 5 with \<^verbatim>\<open>PRESCALE_64\<close> (3; \<^verbatim>\<open>PRESCALE_32\<close> for timer 2) and
  \<^verbatim>\<open>TOGGLE_A_ON_COMPARE | SET_B_ON_COMPARE\<close> (64 and 48), from the stale image: the
  port field 240 of register A holds 112 and the rest the fragment 1, the clock
  field 7 of register B holds 3 and the rest the fragment 8.
\<close>

theorem mode_bits_apart_from_clock_and_port_witness:
  "3 \<in> values_of Timer0_clock \<and> 3 \<in> values_of Timer1_clock \<and> 3 \<in> values_of Timer2_clock \<and>
   set [64, 48] \<subseteq> values_of (Timer0_port atmega328p) \<and>
   set [64, 48] \<subseteq> values_of (Timer1_port atmega328p) \<and>
   set [64, 48] \<subseteq> values_of (Timer2_port atmega328p) \<and>
   Timer0_Modes atmega328p ! 5 ! 1 AND 3 = 0 \<and>
   Timer0_Modes atmega328p ! 5 ! 0 AND or_all [64, 48] = 0 \<and>
   map_option (\<lambda>t. (TCCR0A t AND 240, TCCR0A t AND NOT 240, TCCR0B t AND 7, TCCR0B t AND NOT 7))
     (Timer0_setMode atmega328p 5 3 (or_all [64, 48]) stale) = Some (112, 1, 3, 8) \<and>
   Timer1_Modes atmega328p ! 5 ! 1 AND 3 = 0 \<and>
   Timer1_Modes atmega328p ! 5 ! 0 AND or_all [64, 48] = 0 \<and>
   map_option (\<lambda>t. (TCCR1A t AND 240, TCCR1A t AND NOT 240, TCCR1B t AND 7, TCCR1B t AND NOT 7))
     (Timer1_setMode atmega328p 5 3 (or_all [64, 48]) stale) = Some (112, 1, 3, 8) \<and>
   Timer2_Modes atmega328p ! 5 ! 1 AND 3 = 0 \<and>
   Timer2_Modes atmega328p ! 5 ! 0 AND or_all [64, 48] = 0 \<and>
   map_option (\<lambda>t. (TCCR2A t AND 240, TCCR2A t AND NOT 240, TCCR2B t AND 7, TCCR2B t AND NOT 7))
     (Timer2_setMode atmega328p 5 3 (or_all [64, 48]) stale) = Some (112, 1, 3, 8)"
proof -
  have cs: "3 \<in> values_of Timer0_clock" "3 \<in> values_of Timer1_clock" "3 \<in> values_of Timer2_clock"
    by (simp_all add: values_of_def enum_simps)
  have ps: "set [64, 48] \<subseteq> values_of (Timer0_port atmega328p)"
    "set [64, 48] \<subseteq> values_of (Timer1_port atmega328p)"
    "set [64, 48] \<subseteq> values_of (Timer2_port atmega328p)"
    by (simp_all add: values_of_def Timer0_port_def Timer1_port_def Timer2_port_def
        atmega328p_def BV_def)
  have tb: "Timer0_Modes atmega328p ! 5 = [1, 8]" "Timer1_Modes atmega328p ! 5 = [1, 8]"
    "Timer2_Modes atmega328p ! 5 = [1, 8]"
    by (simp_all add: Timer0_Modes_def Timer1_Modes_def Timer2_Modes_def atmega328p_def BV_def)
  have o: "or_all [64, 48] = 112"
    by (simp add: or_all_def)
  show ?thesis
    using mode_bits_apart_from_clock_and_port [of 5 3 "[64, 48]" stale] cs ps
    by (simp add: tb atmega328p_fields o)
qed

end
